theory Spec2Isabelle
  imports Complex_Main "HOL-Library.Word" "HOL-Library.AList"
begin

unbundle bit_operations_syntax

section \<open>The runtime the program stands on\<close>

subsection \<open>SHA-256 (\<open>hashlib.sha256(...).hexdigest()\<close>)\<close>

text \<open>
  The digest of FIPS 180-4 over the bytes of a string. A \<open>char\<close> is a byte, so a string
  stands for its own encoding (\<open>password.encode()\<close> is the identity on ASCII text).
  Bytes are kept as 32-bit words below 256.
\<close>

type_synonym u32 = "32 word"

definition rotr :: "nat \<Rightarrow> u32 \<Rightarrow> u32" where
  "rotr n x = (drop_bit n x) OR (push_bit (32 - n) x)"

definition K256 :: "u32 list" where
  "K256 =
    [0x428A2F98, 0x71374491, 0xB5C0FBCF, 0xE9B5DBA5, 0x3956C25B, 0x59F111F1,
     0x923F82A4, 0xAB1C5ED5, 0xD807AA98, 0x12835B01, 0x243185BE, 0x550C7DC3,
     0x72BE5D74, 0x80DEB1FE, 0x9BDC06A7, 0xC19BF174, 0xE49B69C1, 0xEFBE4786,
     0x0FC19DC6, 0x240CA1CC, 0x2DE92C6F, 0x4A7484AA, 0x5CB0A9DC, 0x76F988DA,
     0x983E5152, 0xA831C66D, 0xB00327C8, 0xBF597FC7, 0xC6E00BF3, 0xD5A79147,
     0x06CA6351, 0x14292967, 0x27B70A85, 0x2E1B2138, 0x4D2C6DFC, 0x53380D13,
     0x650A7354, 0x766A0ABB, 0x81C2C92E, 0x92722C85, 0xA2BFE8A1, 0xA81A664B,
     0xC24B8B70, 0xC76C51A3, 0xD192E819, 0xD6990624, 0xF40E3585, 0x106AA070,
     0x19A4C116, 0x1E376C08, 0x2748774C, 0x34B0BCB5, 0x391C0CB3, 0x4ED8AA4A,
     0x5B9CCA4F, 0x682E6FF3, 0x748F82EE, 0x78A5636F, 0x84C87814, 0x8CC70208,
     0x90BEFFFA, 0xA4506CEB, 0xBEF9A3F7, 0xC67178F2]"

definition H256 :: "u32 list" where
  "H256 = [0x6A09E667, 0xBB67AE85, 0x3C6EF372, 0xA54FF53A,
           0x510E527F, 0x9B05688C, 0x1F83D9AB, 0x5BE0CD19]"

definition len_bytes :: "nat \<Rightarrow> u32 list" where
  "len_bytes n =
     (let bits = (of_nat (8 * n) :: 64 word)
      in map (\<lambda>i. ucast (drop_bit (8 * i) bits AND 255)) [7, 6, 5, 4, 3, 2, 1, 0])"

definition sha_pad :: "u32 list \<Rightarrow> u32 list" where
  "sha_pad m =
     m @ [128] @ replicate ((119 - length m mod 64) mod 64) 0 @ len_bytes (length m)"

fun be_words :: "u32 list \<Rightarrow> u32 list" where
  "be_words (a # b # c # d # bs) =
     (push_bit 24 a OR push_bit 16 b OR push_bit 8 c OR d) # be_words bs"
| "be_words _ = []"

fun blocks :: "nat \<Rightarrow> u32 list \<Rightarrow> u32 list list" where
  "blocks 0 ws = []"
| "blocks (Suc n) ws = take 16 ws # blocks n (drop 16 ws)"

text \<open>The message schedule, kept newest first: \<open>r ! 1\<close> is \<open>w[t-2]\<close>.\<close>

definition ssig0 :: "u32 \<Rightarrow> u32" where
  "ssig0 x = rotr 7 x XOR rotr 18 x XOR drop_bit 3 x"

definition ssig1 :: "u32 \<Rightarrow> u32" where
  "ssig1 x = rotr 17 x XOR rotr 19 x XOR drop_bit 10 x"

fun schedule :: "nat \<Rightarrow> u32 list \<Rightarrow> u32 list" where
  "schedule 0 r = r"
| "schedule (Suc n) r =
     schedule n ((r ! 15 + ssig0 (r ! 14) + r ! 6 + ssig1 (r ! 1)) # r)"

fun round256 :: "u32 list \<Rightarrow> u32 \<times> u32 \<Rightarrow> u32 list" where
  "round256 [a, b, c, d, e, f, g, h] (k, w) =
     (let t1 = h + (rotr 6 e XOR rotr 11 e XOR rotr 25 e) + ((e AND f) XOR (NOT e AND g)) + k + w;
          t2 = (rotr 2 a XOR rotr 13 a XOR rotr 22 a) + ((a AND b) XOR (a AND c) XOR (b AND c))
      in [t1 + t2, a, b, c, d + t1, e, f, g])"
| "round256 st _ = st"

definition compress :: "u32 list \<Rightarrow> u32 list \<Rightarrow> u32 list" where
  "compress hs blk =
     map2 (+) hs (foldl round256 hs (zip K256 (rev (schedule 48 (rev blk)))))"

definition hex_digit :: "u32 \<Rightarrow> char" where
  "hex_digit d = ''0123456789abcdef'' ! unat d"

definition hex_word :: "u32 \<Rightarrow> string" where
  "hex_word w = map (\<lambda>i. hex_digit (drop_bit (4 * i) w AND 15)) [7, 6, 5, 4, 3, 2, 1, 0]"

definition sha256_hexdigest :: "string \<Rightarrow> string" where
  "sha256_hexdigest s =
     (let p = sha_pad (map of_char s);
          hs = foldl compress H256 (blocks (length p div 64) (be_words p))
      in concat (map hex_word hs))"

subsection \<open>Floats (\<open>float\<close>, IEEE 754 binary64)\<close>

text \<open>
  A balance or an amount is a Python float. A finite float is the rational it denotes
  (the two zeros are one value, as \<open>==\<close> has it); the infinities and NaN are values of
  their own, since \<open>float(input(...))\<close> returns them for "inf" and "nan".
  Addition and subtraction round the exact result to the nearest float, ties to even,
  with 53 bits of precision and no bit below \<open>2^-1074\<close>; a rounded value of \<open>2^1024\<close>
  or more overflows to an infinity.
\<close>

datatype pyfloat = Fin rat | PInf | NInf | NaN

function bit_length :: "int \<Rightarrow> int" where
  "bit_length a = (if a \<le> 0 then 0 else 1 + bit_length (a div 2))"
  by pat_completeness auto
termination
  by (relation "measure nat") auto

declare bit_length.simps [simp del]

definition pow2 :: "int \<Rightarrow> rat" where
  "pow2 e = (if 0 \<le> e then 2 ^ nat e else 1 / 2 ^ nat (- e))"

definition floor_log2 :: "rat \<Rightarrow> int" where
  "floor_log2 q =
     (let k = bit_length (fst (quotient_of q)) - bit_length (snd (quotient_of q))
      in if pow2 k \<le> q then k else k - 1)"

definition round_half_even :: "rat \<Rightarrow> int" where
  "round_half_even q =
     (let n = \<lfloor>q\<rfloor>; d = q - of_int n
      in if d < 1 / 2 then n else if 1 / 2 < d then n + 1 else if even n then n else n + 1)"

definition round64 :: "rat \<Rightarrow> pyfloat" where
  "round64 q =
     (if q = 0 then Fin 0
      else
        let e = max (floor_log2 \<bar>q\<bar> - 52) (- 1074);
            r = of_int (round_half_even (q / pow2 e)) * pow2 e
        in if 1024 \<le> floor_log2 \<bar>r\<bar> then (if 0 < q then PInf else NInf) else Fin r)"

fun fneg :: "pyfloat \<Rightarrow> pyfloat" where
  "fneg (Fin a) = Fin (- a)"
| "fneg PInf = NInf"
| "fneg NInf = PInf"
| "fneg NaN = NaN"

fun fabs :: "pyfloat \<Rightarrow> pyfloat" where
  "fabs (Fin a) = Fin \<bar>a\<bar>"
| "fabs PInf = PInf"
| "fabs NInf = PInf"
| "fabs NaN = NaN"

fun fadd :: "pyfloat \<Rightarrow> pyfloat \<Rightarrow> pyfloat" where
  "fadd NaN y = NaN"
| "fadd x NaN = NaN"
| "fadd PInf NInf = NaN"
| "fadd NInf PInf = NaN"
| "fadd PInf y = PInf"
| "fadd x PInf = PInf"
| "fadd NInf y = NInf"
| "fadd x NInf = NInf"
| "fadd (Fin a) (Fin b) = round64 (a + b)"

definition fsub :: "pyfloat \<Rightarrow> pyfloat \<Rightarrow> pyfloat" where
  "fsub x y = fadd x (fneg y)"

text \<open>\<open>x >= y\<close> and \<open>x < y\<close>: every comparison with NaN is false.\<close>

fun fge :: "pyfloat \<Rightarrow> pyfloat \<Rightarrow> bool" where
  "fge NaN y = False"
| "fge x NaN = False"
| "fge PInf y = True"
| "fge x NInf = True"
| "fge NInf y = False"
| "fge x PInf = False"
| "fge (Fin a) (Fin b) = (b \<le> a)"

fun flt :: "pyfloat \<Rightarrow> pyfloat \<Rightarrow> bool" where
  "flt NaN y = False"
| "flt x NaN = False"
| "flt PInf y = False"
| "flt x NInf = False"
| "flt NInf y = True"
| "flt x PInf = True"
| "flt (Fin a) (Fin b) = (a < b)"

subsection \<open>Strings, integers and text files\<close>

text \<open>
  \<open>str(n)\<close> of an integer; \<open>line.strip()\<close>, which removes the ASCII white space at both
  ends (a string is ASCII text here: the white space beyond ASCII that \<open>strip\<close> also
  removes, such as U+00A0, is not modelled); \<open>s.split(',')\<close>; and the lines a text file yields when it is iterated: the file
  is opened with universal newlines, so a carriage return (alone or before a line feed)
  reads as a line feed, and every line keeps its line feed.
\<close>

definition digit_char :: "int \<Rightarrow> char" where
  "digit_char d = ''0123456789'' ! nat d"

function digits :: "int \<Rightarrow> string" where
  "digits n = (if n < 10 then [digit_char n] else digits (n div 10) @ [digit_char (n mod 10)])"
  by pat_completeness auto
termination
  by (relation "measure nat") auto

declare digits.simps [simp del]

definition str_int :: "int \<Rightarrow> string" where
  "str_int n = (if n < 0 then CHR ''-'' # digits (- n) else digits n)"

definition is_space :: "char \<Rightarrow> bool" where
  "is_space c \<longleftrightarrow>
     c \<in> set [CHR 0x09, CHR 0x0A, CHR 0x0B, CHR 0x0C, CHR 0x0D,
                CHR 0x1C, CHR 0x1D, CHR 0x1E, CHR 0x1F, CHR 0x20]"

definition strip :: "string \<Rightarrow> string" where
  "strip s = rev (dropWhile is_space (rev (dropWhile is_space s)))"

fun split_on :: "char \<Rightarrow> string \<Rightarrow> string list" where
  "split_on d [] = [[]]"
| "split_on d (c # cs) =
     (if c = d then [] # split_on d cs
      else (case split_on d cs of [] \<Rightarrow> [[c]] | f # fs \<Rightarrow> (c # f) # fs))"

fun universal_newlines :: "string \<Rightarrow> string" where
  "universal_newlines [] = []"
| "universal_newlines [c] = (if c = CHR 0x0D then [CHR 0x0A] else [c])"
| "universal_newlines (c # d # cs) =
     (if c = CHR 0x0D \<and> d = CHR 0x0A then CHR 0x0A # universal_newlines cs
      else if c = CHR 0x0D then CHR 0x0A # universal_newlines (d # cs)
      else c # universal_newlines (d # cs))"

fun lines_from :: "string \<Rightarrow> string \<Rightarrow> string list" where
  "lines_from cur [] = (if cur = [] then [] else [rev cur])"
| "lines_from cur (c # cs) =
     (if c = CHR 0x0A then rev (c # cur) # lines_from [] cs else lines_from (c # cur) cs)"

definition file_lines :: "string \<Rightarrow> string list" where
  "file_lines text = lines_from [] (universal_newlines text)"

section \<open>The program\<close>

subsection \<open>\<open>hash_password\<close> and \<open>class Account\<close>\<close>

definition hash_password :: "string \<Rightarrow> string" where
  "hash_password secret = sha256_hexdigest secret"

record account =
  account_number :: string
  password :: string
  account_type :: string
  balance :: pyfloat

text \<open>\<open>Account.__init__\<close>: the second argument is hashed, whatever it is.\<close>

definition Account :: "string \<Rightarrow> string \<Rightarrow> string \<Rightarrow> pyfloat \<Rightarrow> account" where
  "Account number secret kind initial =
     \<lparr>account_number = number, password = hash_password secret,
      account_type = kind, balance = initial\<rparr>"

definition deposit :: "account \<Rightarrow> pyfloat \<Rightarrow> account" where
  "deposit a amount = a\<lparr>balance := fadd (balance a) amount\<rparr>"

definition withdraw :: "account \<Rightarrow> pyfloat \<Rightarrow> account \<times> bool" where
  "withdraw a amount =
     (if fge (balance a) amount then (a\<lparr>balance := fsub (balance a) amount\<rparr>, True)
      else (a, False))"

text \<open>
  \<open>to_string\<close> formats the balance with \<open>str\<close> of a float, which is the first argument
  here (\<open>str_float\<close>): the digits Python prints are the shortest that read back as the
  same float, and that algorithm is not this program's.
\<close>

definition to_string :: "(pyfloat \<Rightarrow> string) \<Rightarrow> account \<Rightarrow> string" where
  "to_string str_float a =
     account_number a @ '','' @ password a @ '','' @ account_type a @ '','' @
     str_float (balance a) @ [CHR 0x0A]"

subsection \<open>\<open>class BankingApp\<close>\<close>

text \<open>
  Account objects are mutable and shared: the dictionary and the front end's session
  both hold the object that \<open>login\<close> returned. The state is therefore a store of objects
  by reference, the dictionary \<open>accounts\<close> from account number to reference (in insertion
  order, which is the order \<open>save_accounts\<close> writes), the next fresh reference, and the
  content of \<open>accounts.txt\<close> (\<open>None\<close> while the file does not exist). Opening, reading
  and writing the file are taken to succeed, and what the program prints is left out.
\<close>

type_synonym ref = nat

record bank =
  heap :: "ref \<rightharpoonup> account"
  accounts :: "(string \<times> ref) list"
  next_ref :: ref
  accounts_file :: "string option"

datatype error = ValueError

text \<open>\<open>account.deposit(amount)\<close> and \<open>account.withdraw(amount)\<close> on the object behind a
  reference. A reference always denotes an object in Python; on a reference that denotes
  none the state is returned as it is.\<close>

definition obj_deposit :: "bank \<Rightarrow> ref \<Rightarrow> pyfloat \<Rightarrow> bank" where
  "obj_deposit s r amount =
     (case heap s r of
        None \<Rightarrow> s
      | Some a \<Rightarrow> s\<lparr>heap := (heap s)(r \<mapsto> deposit a amount)\<rparr>)"

definition obj_withdraw :: "bank \<Rightarrow> ref \<Rightarrow> pyfloat \<Rightarrow> bank \<times> bool" where
  "obj_withdraw s r amount =
     (case heap s r of
        None \<Rightarrow> (s, False)
      | Some a \<Rightarrow>
          (case withdraw a amount of (a', ok) \<Rightarrow> (s\<lparr>heap := (heap s)(r \<mapsto> a')\<rparr>, ok)))"

text \<open>\<open>self.accounts[number] = account\<close> for a newly constructed object.\<close>

definition store_new :: "bank \<Rightarrow> string \<Rightarrow> account \<Rightarrow> bank" where
  "store_new s number a =
     s\<lparr>heap := (heap s)(next_ref s \<mapsto> a),
       accounts := AList.update number (next_ref s) (accounts s),
       next_ref := Suc (next_ref s)\<rparr>"

text \<open>
  The body of the loop of \<open>load_accounts\<close>, for one line: the unpacking fails with a
  ValueError unless the split gives four fields, and so does \<open>float\<close> on a field that is
  no number. \<open>float\<close> is the first argument (\<open>float_of\<close>).
\<close>

definition load_line :: "(string \<Rightarrow> pyfloat option) \<Rightarrow> string \<Rightarrow> error + account" where
  "load_line float_of line =
     (case split_on CHR '','' (strip line) of
        [number, secret, kind, bal] \<Rightarrow>
          (case float_of bal of
             None \<Rightarrow> Inl ValueError
           | Some b \<Rightarrow> Inr (Account number secret kind b))
      | _ \<Rightarrow> Inl ValueError)"

fun load_lines :: "(string \<Rightarrow> pyfloat option) \<Rightarrow> string list \<Rightarrow> bank \<Rightarrow> error + bank" where
  "load_lines float_of [] s = Inr s"
| "load_lines float_of (line # rest) s =
     (case load_line float_of line of
        Inl e \<Rightarrow> Inl e
      | Inr a \<Rightarrow> load_lines float_of rest (store_new s (account_number a) a))"

definition load_accounts :: "(string \<Rightarrow> pyfloat option) \<Rightarrow> bank \<Rightarrow> error + bank" where
  "load_accounts float_of s =
     (case accounts_file s of
        None \<Rightarrow> Inr s
      | Some text \<Rightarrow> load_lines float_of (file_lines text) s)"

text \<open>\<open>BankingApp()\<close>, given what \<open>accounts.txt\<close> holds.\<close>

definition no_accounts :: "string option \<Rightarrow> bank" where
  "no_accounts disk = \<lparr>heap = Map.empty, accounts = [], next_ref = 0, accounts_file = disk\<rparr>"

definition BankingApp :: "(string \<Rightarrow> pyfloat option) \<Rightarrow> string option \<Rightarrow> error + bank" where
  "BankingApp float_of disk = load_accounts float_of (no_accounts disk)"

definition account_line :: "(pyfloat \<Rightarrow> string) \<Rightarrow> bank \<Rightarrow> string \<times> ref \<Rightarrow> string" where
  "account_line str_float s entry =
     (case heap s (snd entry) of None \<Rightarrow> [] | Some a \<Rightarrow> to_string str_float a)"

definition save_accounts :: "(pyfloat \<Rightarrow> string) \<Rightarrow> bank \<Rightarrow> bank" where
  "save_accounts str_float s =
     s\<lparr>accounts_file := Some (concat (map (account_line str_float s) (accounts s)))\<rparr>"

text \<open>\<open>create_account\<close>; \<open>n\<close> and \<open>p\<close> are what the two calls of \<open>random.randint\<close>
  return. The line it prints is left out.\<close>

definition create_account :: "(pyfloat \<Rightarrow> string) \<Rightarrow> bank \<Rightarrow> string \<Rightarrow> int \<Rightarrow> int \<Rightarrow> bank" where
  "create_account str_float s kind n p =
     save_accounts str_float
       (store_new s (str_int n) (Account (str_int n) (str_int p) kind (Fin 0)))"

definition login :: "bank \<Rightarrow> string \<Rightarrow> string \<Rightarrow> ref option" where
  "login s number secret =
     (case map_of (accounts s) number of
        None \<Rightarrow> None
      | Some r \<Rightarrow>
          (case heap s r of
             None \<Rightarrow> None
           | Some a \<Rightarrow> if password a = hash_password secret then Some r else None))"

definition delete_account :: "(pyfloat \<Rightarrow> string) \<Rightarrow> bank \<Rightarrow> string \<Rightarrow> bank \<times> bool" where
  "delete_account str_float s number =
     (case map_of (accounts s) number of
        None \<Rightarrow> (s, False)
      | Some r \<Rightarrow>
          (save_accounts str_float (s\<lparr>accounts := AList.delete number (accounts s)\<rparr>), True))"

definition transfer_money ::
  "(pyfloat \<Rightarrow> string) \<Rightarrow> bank \<Rightarrow> ref \<Rightarrow> string \<Rightarrow> pyfloat \<Rightarrow> bank \<times> bool" where
  "transfer_money str_float s from_account to_number amount =
     (case map_of (accounts s) to_number of
        None \<Rightarrow> (s, False)
      | Some to_account \<Rightarrow>
          (case obj_withdraw s from_account amount of
             (s', True) \<Rightarrow> (save_accounts str_float (obj_deposit s' to_account amount), True)
           | (s', False) \<Rightarrow> (s', False)))"

subsection \<open>The session of \<open>main\<close>\<close>

text \<open>Actions 1 and 2 of a logged-in session: deposit and save; withdraw, and save when
  the withdrawal succeeded.\<close>

definition session_deposit :: "(pyfloat \<Rightarrow> string) \<Rightarrow> bank \<Rightarrow> ref \<Rightarrow> pyfloat \<Rightarrow> bank" where
  "session_deposit str_float s r amount = save_accounts str_float (obj_deposit s r amount)"

definition session_withdraw :: "(pyfloat \<Rightarrow> string) \<Rightarrow> bank \<Rightarrow> ref \<Rightarrow> pyfloat \<Rightarrow> bank \<times> bool" where
  "session_withdraw str_float s r amount =
     (case obj_withdraw s r amount of
        (s', True) \<Rightarrow> (save_accounts str_float s', True)
      | (s', False) \<Rightarrow> (s', False))"

subsection \<open>Runs of the application\<close>

text \<open>
  What a front end can ask of one \<open>BankingApp\<close>: create an account (with the two random
  draws), log in, and deposit, withdraw, transfer and delete through an account object.
  \<open>login\<close> only reads. An amount is any float: \<open>main\<close> passes \<open>float(input(...))\<close> on
  unchecked.
\<close>

datatype action =
    Create string int int
  | Login string string
  | Deposit ref pyfloat
  | Withdraw ref pyfloat
  | Transfer ref string pyfloat
  | Delete string

fun step :: "(pyfloat \<Rightarrow> string) \<Rightarrow> bank \<Rightarrow> action \<Rightarrow> bank" where
  "step str_float s (Create kind n p) = create_account str_float s kind n p"
| "step str_float s (Login number secret) = s"
| "step str_float s (Deposit r amount) = session_deposit str_float s r amount"
| "step str_float s (Withdraw r amount) = fst (session_withdraw str_float s r amount)"
| "step str_float s (Transfer r to_number amount) =
     fst (transfer_money str_float s r to_number amount)"
| "step str_float s (Delete number) = fst (delete_account str_float s number)"

definition run :: "(pyfloat \<Rightarrow> string) \<Rightarrow> bank \<Rightarrow> action list \<Rightarrow> bank" where
  "run str_float s acts = foldl (step str_float) s acts"

text \<open>Every account of the ledger has a balance for which \<open>balance >= 0\<close> is true.\<close>

definition nonneg_entry :: "bank \<Rightarrow> string \<times> ref \<Rightarrow> bool" where
  "nonneg_entry s entry =
     (case heap s (snd entry) of None \<Rightarrow> False | Some a \<Rightarrow> fge (balance a) (Fin 0))"

definition balances_nonneg :: "bank \<Rightarrow> bool" where
  "balances_nonneg s = list_all (nonneg_entry s) (accounts s)"

text \<open>An amount that is a finite number and not negative, and an action whose amount
  (if it has one) is such.\<close>

fun finite_nonneg :: "pyfloat \<Rightarrow> bool" where
  "finite_nonneg (Fin a) = (0 \<le> a)"
| "finite_nonneg x = False"

fun plain_amount :: "action \<Rightarrow> bool" where
  "plain_amount (Deposit r amount) = finite_nonneg amount"
| "plain_amount (Withdraw r amount) = finite_nonneg amount"
| "plain_amount (Transfer r to_number amount) = finite_nonneg amount"
| "plain_amount act = True"

subsection \<open>The ledger of the scenarios\<close>

text \<open>Two accounts, 100001 and 100002, with the given balances, as two calls of
  \<open>create_account\<close> and some deposits leave them in memory.\<close>

definition two_accounts :: "pyfloat \<Rightarrow> pyfloat \<Rightarrow> bank" where
  "two_accounts x y =
     \<lparr>heap = [0 \<mapsto> Account ''100001'' ''1234'' ''savings'' x,
              1 \<mapsto> Account ''100002'' ''5678'' ''current'' y],
      accounts = [(''100001'', 0), (''100002'', 1)],
      next_ref = 2,
      accounts_file = None\<rparr>"

section \<open>Evaluation of the runtime on the values of the scenarios\<close>

lemma hash_1234:
  "hash_password ''1234'' = ''03ac674216f3e15c761ee1a5e255f067953623c8b388b4459e13f978d7c846f4''"
  by code_simp

lemma hash_of_hash_1234:
  "hash_password ''03ac674216f3e15c761ee1a5e255f067953623c8b388b4459e13f978d7c846f4'' =
     ''756bc47cb5215dc3329ca7e1f7be33a2dad68990bb94b76d90aa07f4e44a233a''"
  by code_simp

lemma str_int_123456: "str_int 123456 = ''123456''"
  by code_simp

lemma str_int_1234: "str_int 1234 = ''1234''"
  by code_simp

lemma str_int_100001: "str_int 100001 = ''100001''"
  by code_simp

lemma round64_whole:
  "round64 (- 5) = Fin (- 5)" "round64 20 = Fin 20" "round64 30 = Fin 30"
  "round64 50 = Fin 50" "round64 70 = Fin 70" "round64 105 = Fin 105"
  by code_simp+

text \<open>Above \<open>2^53\<close> the floats are two apart: \<open>1e16 - 1.0\<close> is \<open>1e16\<close>, and
  \<open>9007199254740994.0 - 1.0\<close> is \<open>9007199254740992.0\<close>.\<close>

lemma round64_large:
  "round64 9999999999999999 = Fin 10000000000000000"
  "round64 9007199254740993 = Fin 9007199254740992"
  "round64 1 = Fin 1"
  by code_simp+

text \<open>\<open>0.9\<close> and \<open>0.2\<close> are the floats nearest to 9/10 and 1/5; \<open>(0.9 - 0.2) + 0.2\<close> is
  \<open>0.8999999999999999\<close>, one unit in the last place below \<open>0.9\<close>.\<close>

lemma float_09: "round64 (9 / 10) = Fin (8106479329266893 / 9007199254740992)"
  by code_simp

lemma float_02: "round64 (1 / 5) = Fin (3602879701896397 / 18014398509481984)"
  by code_simp

lemma float_09_minus_02_plus_02:
  "fadd (fsub (Fin (8106479329266893 / 9007199254740992))
              (Fin (3602879701896397 / 18014398509481984)))
        (Fin (3602879701896397 / 18014398509481984)) =
   Fin (2026619832316723 / 2251799813685248)"
  by code_simp

section \<open>Properties of the floats\<close>

lemma pow2_pos: "0 < pow2 e"
  by (simp add: pow2_def)

lemma round_half_even_nonneg: "0 \<le> q \<Longrightarrow> 0 \<le> round_half_even q"
proof -
  assume "0 \<le> q"
  then have "0 \<le> \<lfloor>q\<rfloor>" by simp
  then show ?thesis by (simp add: round_half_even_def Let_def)
qed

lemma round64_nonneg: "0 \<le> q \<Longrightarrow> fge (round64 q) (Fin 0)"
proof -
  assume q: "0 \<le> q"
  have "0 \<le> q / pow2 e" for e
    using q pow2_pos [of e] by simp
  then have "0 \<le> (of_int (round_half_even (q / pow2 e)) :: rat) * pow2 e" for e
    using round_half_even_nonneg [of "q / pow2 e"] pow2_pos [of e] by simp
  with q show ?thesis
    by (auto simp add: round64_def Let_def)
qed

lemma fneg_negative: "flt amount (Fin 0) \<Longrightarrow> fneg amount = fabs amount"
  by (cases amount) simp_all

lemma fadd_nonneg:
  "fge b (Fin 0) \<Longrightarrow> finite_nonneg amount \<Longrightarrow> fge (fadd b amount) (Fin 0)"
  by (cases b; cases amount) (simp_all add: round64_nonneg)

lemma fsub_nonneg:
  "fge b amount \<Longrightarrow> finite_nonneg amount \<Longrightarrow> fge (fsub b amount) (Fin 0)"
  by (cases b; cases amount) (simp_all add: fsub_def round64_nonneg)

section \<open>The claims\<close>

text \<open>
  The line that \<open>to_string\<close> writes for the account 123456 created with the secret
  "1234", and what the loop of \<open>load_accounts\<close> reads from it.
\<close>

lemma fields_of_saved_line:
  "split_on CHR '',''
     (strip (''123456,03ac674216f3e15c761ee1a5e255f067953623c8b388b4459e13f978d7c846f4,savings,0.0\<newline>'')) =
   [''123456'', ''03ac674216f3e15c761ee1a5e255f067953623c8b388b4459e13f978d7c846f4'',
    ''savings'', ''0.0'']"
  by code_simp

lemma lines_of_saved_file:
  "file_lines (''123456,03ac674216f3e15c761ee1a5e255f067953623c8b388b4459e13f978d7c846f4,savings,0.0\<newline>'') =
   [''123456,03ac674216f3e15c761ee1a5e255f067953623c8b388b4459e13f978d7c846f4,savings,0.0\<newline>'']"
  by code_simp

lemma saved_line:
  assumes "str_float (Fin 0) = ''0.0''"
  shows "to_string str_float (Account ''123456'' ''1234'' ''savings'' (Fin 0)) =
    ''123456,03ac674216f3e15c761ee1a5e255f067953623c8b388b4459e13f978d7c846f4,savings,0.0\<newline>''"
  using assms by (simp add: to_string_def Account_def hash_1234)

lemma loaded_line:
  assumes "float_of ''0.0'' = Some (Fin 0)"
  shows "load_line float_of
     (''123456,03ac674216f3e15c761ee1a5e255f067953623c8b388b4459e13f978d7c846f4,savings,0.0\<newline>'') =
    Inr \<lparr>account_number = ''123456'',
         password = ''756bc47cb5215dc3329ca7e1f7be33a2dad68990bb94b76d90aa07f4e44a233a'',
         account_type = ''savings'', balance = Fin 0\<rparr>"
  using assms
  by (simp add: load_line_def fields_of_saved_line Account_def hash_of_hash_1234)

text \<open>
  C1 does not hold of the code. \<open>load_accounts\<close> passes the digest it read to
  \<open>Account(...)\<close>, whose second parameter is the plain text password and is hashed: the
  account read back from the line of an account holds the digest of its digest. Here for
  the account 123456 with secret "1234", kind "savings" and balance 0.0, for which
  \<open>str\<close> gives "0.0" and \<open>float\<close> reads it back.
\<close>

theorem reload_hashes_the_digest:
  assumes "str_float (Fin 0) = ''0.0''" and "float_of ''0.0'' = Some (Fin 0)"
  shows "password (Account ''123456'' ''1234'' ''savings'' (Fin 0)) =
      ''03ac674216f3e15c761ee1a5e255f067953623c8b388b4459e13f978d7c846f4'' \<and>
    load_line float_of (to_string str_float (Account ''123456'' ''1234'' ''savings'' (Fin 0))) =
      Inr ((Account ''123456'' ''1234'' ''savings'' (Fin 0))
        \<lparr>password := ''756bc47cb5215dc3329ca7e1f7be33a2dad68990bb94b76d90aa07f4e44a233a''\<rparr>)"
  by (simp add: saved_line [of str_float, OF assms(1)] loaded_line [of float_of, OF assms(2)])
    (simp add: Account_def hash_1234)

theorem reload_hashes_the_digest_witness:
  "load_line (\<lambda>t. if t = ''0.0'' then Some (Fin 0) else None)
     (to_string (\<lambda>x. ''0.0'') (Account ''123456'' ''1234'' ''savings'' (Fin 0))) \<noteq>
     Inr (Account ''123456'' ''1234'' ''savings'' (Fin 0))"
  using reload_hashes_the_digest [of "\<lambda>x. ''0.0''" "\<lambda>t. if t = ''0.0'' then Some (Fin 0) else None"]
  by (simp add: Account_def hash_1234)

text \<open>
  C2 does not hold of the code, for the same reason. On a first run, create the account
  123456 with secret "1234": \<open>login\<close> with that secret returns the account. Construct the
  application again from the file that was saved: the account is there, its stored
  digest is the digest of the digest, and \<open>login\<close> with the same secret returns None.
\<close>

theorem login_fails_after_reload:
  assumes "str_float (Fin 0) = ''0.0''" and "float_of ''0.0'' = Some (Fin 0)"
  shows "login (create_account str_float (no_accounts None) ''savings'' 123456 1234)
      ''123456'' ''1234'' = Some 0 \<and>
    map_sum id (\<lambda>s'. (accounts s', map_option password (heap s' 0)))
      (BankingApp float_of
        (accounts_file (create_account str_float (no_accounts None) ''savings'' 123456 1234))) =
      Inr ([(''123456'', 0)],
           Some ''756bc47cb5215dc3329ca7e1f7be33a2dad68990bb94b76d90aa07f4e44a233a'') \<and>
    map_sum id (\<lambda>s'. login s' ''123456'' ''1234'')
      (BankingApp float_of
        (accounts_file (create_account str_float (no_accounts None) ''savings'' 123456 1234))) =
      Inr None"
proof -
  have f: "accounts_file (create_account str_float (no_accounts None) ''savings'' 123456 1234) =
    Some (''123456,03ac674216f3e15c761ee1a5e255f067953623c8b388b4459e13f978d7c846f4,savings,0.0\<newline>'')"
    using saved_line [of str_float, OF assms(1)]
    by (simp add: create_account_def save_accounts_def store_new_def no_accounts_def
        account_line_def str_int_123456 str_int_1234)
  have l: "login (create_account str_float (no_accounts None) ''savings'' 123456 1234)
      ''123456'' ''1234'' = Some 0"
    by (simp add: create_account_def save_accounts_def store_new_def no_accounts_def
        login_def Account_def str_int_123456 str_int_1234)
  have b: "BankingApp float_of
      (Some (''123456,03ac674216f3e15c761ee1a5e255f067953623c8b388b4459e13f978d7c846f4,savings,0.0\<newline>'')) =
    Inr (store_new
      (no_accounts (Some (''123456,03ac674216f3e15c761ee1a5e255f067953623c8b388b4459e13f978d7c846f4,savings,0.0\<newline>'')))
      ''123456''
      \<lparr>account_number = ''123456'',
         password = ''756bc47cb5215dc3329ca7e1f7be33a2dad68990bb94b76d90aa07f4e44a233a'',
         account_type = ''savings'', balance = Fin 0\<rparr>)"
    unfolding BankingApp_def load_accounts_def
    by (simp add: no_accounts_def lines_of_saved_file loaded_line [of float_of, OF assms(2)]
        )
  have r: "map_sum id (\<lambda>s'. (accounts s', map_option password (heap s' 0)))
      (BankingApp float_of
        (accounts_file (create_account str_float (no_accounts None) ''savings'' 123456 1234))) =
      Inr ([(''123456'', 0)],
           Some ''756bc47cb5215dc3329ca7e1f7be33a2dad68990bb94b76d90aa07f4e44a233a'')"
    unfolding f b by (simp add: store_new_def no_accounts_def)
  have n: "map_sum id (\<lambda>s'. login s' ''123456'' ''1234'')
      (BankingApp float_of
        (accounts_file (create_account str_float (no_accounts None) ''savings'' 123456 1234))) =
      Inr None"
    unfolding f b by (simp add: store_new_def no_accounts_def login_def hash_1234)
  from l r n show ?thesis
    by (intro conjI)
qed

theorem login_fails_after_reload_witness:
  "login (create_account (\<lambda>x. ''0.0'') (no_accounts None) ''savings'' 123456 1234)
      ''123456'' ''1234'' = Some 0 \<and>
   map_sum id (\<lambda>s'. login s' ''123456'' ''1234'')
      (BankingApp (\<lambda>t. if t = ''0.0'' then Some (Fin 0) else None)
        (accounts_file (create_account (\<lambda>x. ''0.0'') (no_accounts None) ''savings''
           123456 1234))) =
      Inr None"
  using login_fails_after_reload [of "\<lambda>x. ''0.0''" "\<lambda>t. if t = ''0.0'' then Some (Fin 0) else None"]
  by simp

text \<open>
  C3, as stated, fails: no operation checks the sign of an amount. On a first run, create
  an account, log in and deposit \<open>-5.0\<close>: the balance is \<open>-5.0\<close>.
\<close>

theorem negative_deposit_reaches_negative_balance:
  "\<forall>str_float.
     login (run str_float (no_accounts None) [Create ''savings'' 100001 1234])
       ''100001'' ''1234'' = Some 0 \<and>
     map_option balance
       (heap (run str_float (no_accounts None)
          [Create ''savings'' 100001 1234, Login ''100001'' ''1234'', Deposit 0 (Fin (- 5))]) 0) =
       Some (Fin (- 5)) \<and>
     \<not> balances_nonneg (run str_float (no_accounts None)
          [Create ''savings'' 100001 1234, Login ''100001'' ''1234'', Deposit 0 (Fin (- 5))])"
  by (simp add: run_def create_account_def store_new_def save_accounts_def
      session_deposit_def obj_deposit_def deposit_def Account_def no_accounts_def
      balances_nonneg_def nonneg_entry_def login_def str_int_100001 str_int_1234
      round64_whole)

text \<open>
  What each operation does to the accounts of the dictionary when its amount is a finite
  number that is not negative.
\<close>

lemma nonneg_entry_file [simp]:
  "nonneg_entry (s\<lparr>accounts_file := f\<rparr>) = nonneg_entry s"
  by (rule ext) (simp add: nonneg_entry_def)

lemma balances_nonneg_save [simp]:
  "balances_nonneg (save_accounts str_float s) = balances_nonneg s"
  by (simp add: balances_nonneg_def save_accounts_def)

lemma set_update_subset: "set (AList.update k v al) \<subseteq> insert (k, v) (set al)"
  by (induction al) auto

lemma balances_nonneg_store_new:
  assumes "balances_nonneg s" and "fge (balance a) (Fin 0)"
  shows "balances_nonneg (store_new s k a)"
proof -
  have "nonneg_entry (store_new s k a) e"
    if "e \<in> insert (k, next_ref s) (set (accounts s))" for e
    using that assms
    by (auto simp add: nonneg_entry_def store_new_def balances_nonneg_def list_all_iff)
  then show ?thesis
    using set_update_subset [of k "next_ref s" "accounts s"]
    by (auto simp add: balances_nonneg_def list_all_iff store_new_def)
qed

lemma balances_nonneg_deposit:
  assumes "balances_nonneg s" and "finite_nonneg amount"
  shows "balances_nonneg (obj_deposit s r amount)"
proof (cases "heap s r")
  case None
  with assms show ?thesis by (simp add: obj_deposit_def)
next
  case (Some a)
  have "nonneg_entry (obj_deposit s r amount) e" if "e \<in> set (accounts s)" for e
  proof -
    from that assms have "nonneg_entry s e"
      by (simp add: balances_nonneg_def list_all_iff)
    with Some assms(2) show ?thesis
      by (auto simp add: nonneg_entry_def obj_deposit_def deposit_def fadd_nonneg
          split: option.splits)
  qed
  with Some show ?thesis
    by (simp add: balances_nonneg_def list_all_iff obj_deposit_def)
qed

lemma balances_nonneg_withdraw:
  assumes "balances_nonneg s" and "finite_nonneg amount"
  shows "balances_nonneg (fst (obj_withdraw s r amount))"
proof (cases "heap s r")
  case None
  with assms show ?thesis by (simp add: obj_withdraw_def)
next
  case (Some a)
  have "nonneg_entry (fst (obj_withdraw s r amount)) e" if "e \<in> set (accounts s)" for e
  proof -
    from that assms have "nonneg_entry s e"
      by (simp add: balances_nonneg_def list_all_iff)
    with Some assms(2) show ?thesis
      by (auto simp add: nonneg_entry_def obj_withdraw_def withdraw_def fsub_nonneg
          split: option.splits)
  qed
  moreover have "accounts (fst (obj_withdraw s r amount)) = accounts s"
    using Some by (simp add: obj_withdraw_def withdraw_def)
  ultimately show ?thesis
    by (simp add: balances_nonneg_def list_all_iff)
qed

lemma balances_nonneg_delete:
  assumes "balances_nonneg s"
  shows "balances_nonneg (fst (delete_account str_float s number))"
  using assms
  by (auto simp add: delete_account_def balances_nonneg_def list_all_iff nonneg_entry_def
      save_accounts_def AList.delete_eq split: option.splits)

lemma balances_nonneg_transfer:
  assumes "balances_nonneg s" and "finite_nonneg amount"
  shows "balances_nonneg (fst (transfer_money str_float s r to_number amount))"
proof (cases "map_of (accounts s) to_number")
  case None
  with assms show ?thesis by (simp add: transfer_money_def)
next
  case (Some t)
  obtain s' ok where w: "obj_withdraw s r amount = (s', ok)"
    by (cases "obj_withdraw s r amount")
  with balances_nonneg_withdraw [OF assms, of r] have "balances_nonneg s'"
    by simp
  with Some w assms(2) show ?thesis
    by (cases ok) (simp_all add: transfer_money_def balances_nonneg_deposit)
qed

lemma balances_nonneg_step:
  assumes "balances_nonneg s" and "plain_amount act"
  shows "balances_nonneg (step str_float s act)"
proof (cases act)
  case (Create kind n p)
  with assms show ?thesis
    by (simp add: create_account_def balances_nonneg_store_new Account_def)
next
  case (Login number secret)
  with assms show ?thesis by simp
next
  case (Deposit r amount)
  with assms show ?thesis
    by (simp add: session_deposit_def balances_nonneg_deposit)
next
  case (Withdraw r amount)
  obtain s' ok where w: "obj_withdraw s r amount = (s', ok)"
    by (cases "obj_withdraw s r amount")
  with balances_nonneg_withdraw [OF assms(1), of amount r] assms Withdraw
  show ?thesis
    by (cases ok) (simp_all add: session_withdraw_def)
next
  case (Transfer r to_number amount)
  with assms show ?thesis
    by (simp add: balances_nonneg_transfer)
next
  case (Delete number)
  with assms show ?thesis
    by (simp add: balances_nonneg_delete)
qed

lemma balances_nonneg_run:
  "balances_nonneg s \<Longrightarrow> list_all plain_amount acts \<Longrightarrow>
   balances_nonneg (run str_float s acts)"
  unfolding run_def
  by (induction acts arbitrary: s) (simp_all add: balances_nonneg_step)

text \<open>
  C3, amended. When every amount deposited, withdrawn or transferred is a finite number
  that is not negative, every account of the dictionary keeps a balance that is not
  negative: from any state where that holds, and so from the state of a first run.
\<close>

theorem balances_stay_nonneg:
  assumes "list_all plain_amount acts"
  shows "(balances_nonneg s \<longrightarrow> balances_nonneg (run str_float s acts)) \<and>
    (BankingApp float_of None = Inr s \<longrightarrow> balances_nonneg (run str_float s acts))"
proof -
  have "balances_nonneg (no_accounts None)"
    by (simp add: balances_nonneg_def no_accounts_def)
  with assms show ?thesis
    by (auto simp add: balances_nonneg_run BankingApp_def load_accounts_def no_accounts_def)
qed

theorem balances_stay_nonneg_witness:
  "\<forall>str_float float_of.
     list_all plain_amount
       [Create ''savings'' 100001 1234, Login ''100001'' ''1234'', Deposit 0 (Fin 100),
        Withdraw 0 (Fin 30), Create ''current'' 100002 5678, Transfer 0 ''100002'' (Fin 50),
        Delete ''100001''] \<and>
     BankingApp float_of None = Inr (no_accounts None) \<and>
     balances_nonneg (run str_float (no_accounts None)
       [Create ''savings'' 100001 1234, Login ''100001'' ''1234'', Deposit 0 (Fin 100),
        Withdraw 0 (Fin 30), Create ''current'' 100002 5678, Transfer 0 ''100002'' (Fin 50),
        Delete ''100001''])"
proof (intro allI)
  fix str_float :: "pyfloat \<Rightarrow> string" and float_of :: "string \<Rightarrow> pyfloat option"
  have p: "list_all plain_amount
       [Create ''savings'' 100001 1234, Login ''100001'' ''1234'', Deposit 0 (Fin 100),
        Withdraw 0 (Fin 30), Create ''current'' 100002 5678, Transfer 0 ''100002'' (Fin 50),
        Delete ''100001'']"
    by simp
  have b: "BankingApp float_of None = Inr (no_accounts None)"
    by (simp add: BankingApp_def load_accounts_def no_accounts_def)
  show "list_all plain_amount
       [Create ''savings'' 100001 1234, Login ''100001'' ''1234'', Deposit 0 (Fin 100),
        Withdraw 0 (Fin 30), Create ''current'' 100002 5678, Transfer 0 ''100002'' (Fin 50),
        Delete ''100001''] \<and>
     BankingApp float_of None = Inr (no_accounts None) \<and>
     balances_nonneg (run str_float (no_accounts None)
       [Create ''savings'' 100001 1234, Login ''100001'' ''1234'', Deposit 0 (Fin 100),
        Withdraw 0 (Fin 30), Create ''current'' 100002 5678, Transfer 0 ''100002'' (Fin 50),
        Delete ''100001''])"
    using balances_stay_nonneg [OF p, of "no_accounts None" str_float float_of] p b
    by blast
qed

text \<open>
  C4, as stated, fails where it says that the balance goes down by exactly the amount:
  the subtraction rounds. An account with balance \<open>1e16\<close> that withdraws \<open>1.0\<close> gets
  True and keeps the balance \<open>1e16\<close>.
\<close>

theorem withdraw_rounds:
  "fge (Fin 10000000000000000) (Fin 1) \<and>
   withdraw (Account ''100001'' ''1234'' ''savings'' (Fin 10000000000000000)) (Fin 1) =
     (Account ''100001'' ''1234'' ''savings'' (Fin 10000000000000000), True)"
  by (simp add: withdraw_def Account_def fsub_def round64_large)

text \<open>
  C4, amended. \<open>withdraw\<close> returns True exactly when \<open>balance >= amount\<close>; then the new
  balance is \<open>balance - amount\<close> in float arithmetic, the float nearest to the difference,
  and nothing else of the account changes; otherwise the account is as it was. The new
  balance is the difference itself whenever the difference is a float.
\<close>

theorem withdraw_all_or_nothing:
  "snd (withdraw a amount) = fge (balance a) amount \<and>
   (fge (balance a) amount \<longrightarrow>
      fst (withdraw a amount) = a\<lparr>balance := fsub (balance a) amount\<rparr>) \<and>
   (\<not> fge (balance a) amount \<longrightarrow> fst (withdraw a amount) = a) \<and>
   (\<forall>x y. balance a = Fin x \<and> amount = Fin y \<and> y \<le> x \<and> round64 (x - y) = Fin (x - y) \<longrightarrow>
      fst (withdraw a amount) = a\<lparr>balance := Fin (x - y)\<rparr>)"
  by (simp add: withdraw_def fsub_def)

theorem withdraw_all_or_nothing_witness:
  "withdraw (Account ''100001'' ''1234'' ''savings'' (Fin 50)) (Fin 30) =
     (Account ''100001'' ''1234'' ''savings'' (Fin 20), True) \<and>
   withdraw (Account ''100001'' ''1234'' ''savings'' (Fin 50)) (Fin 70) =
     (Account ''100001'' ''1234'' ''savings'' (Fin 50), False)"
  using withdraw_all_or_nothing [of "Account ''100001'' ''1234'' ''savings'' (Fin 50)" "Fin 30"]
    withdraw_all_or_nothing [of "Account ''100001'' ''1234'' ''savings'' (Fin 50)" "Fin 70"]
  by (simp add: prod_eq_iff Account_def fsub_def round64_whole)

text \<open>
  C5. A transfer to an account number that is not in the dictionary, or from an account
  whose balance is not at least the amount, returns False and leaves the whole state as
  it was: no balance changes, nothing is deposited and nothing is saved.
\<close>

theorem failed_transfer_changes_nothing:
  "map_of (accounts s) to_number = None \<or>
   (heap s from_account = Some a \<and> \<not> fge (balance a) amount) \<Longrightarrow>
   transfer_money str_float s from_account to_number amount = (s, False)"
  by (auto simp add: transfer_money_def obj_withdraw_def withdraw_def map_upd_triv
      split: option.splits)

theorem failed_transfer_changes_nothing_witness:
  "\<forall>str_float.
     transfer_money str_float (two_accounts (Fin 10) (Fin 0)) 0 ''100002'' (Fin 50) =
       (two_accounts (Fin 10) (Fin 0), False) \<and>
     transfer_money str_float (two_accounts (Fin 10) (Fin 0)) 0 ''999999'' (Fin 5) =
       (two_accounts (Fin 10) (Fin 0), False)"
proof
  fix str_float
  have a: "heap (two_accounts (Fin 10) (Fin 0)) 0 = Some (Account ''100001'' ''1234'' ''savings'' (Fin 10))
      \<and> \<not> fge (balance (Account ''100001'' ''1234'' ''savings'' (Fin 10))) (Fin 50)"
    by (simp add: two_accounts_def Account_def)
  have b: "map_of (accounts (two_accounts (Fin 10) (Fin 0))) ''999999'' = None"
    by (simp add: two_accounts_def)
  show "transfer_money str_float (two_accounts (Fin 10) (Fin 0)) 0 ''100002'' (Fin 50) =
       (two_accounts (Fin 10) (Fin 0), False) \<and>
     transfer_money str_float (two_accounts (Fin 10) (Fin 0)) 0 ''999999'' (Fin 5) =
       (two_accounts (Fin 10) (Fin 0), False)"
    using failed_transfer_changes_nothing [OF disjI2, OF a, of str_float "''100002''"]
      failed_transfer_changes_nothing [OF disjI1, OF b, of str_float 0 "Fin 5"]
    by simp
qed

text \<open>
  C6, as stated, fails in its general clause: the debit and the credit round apart. A
  sender with balance \<open>9007199254740994.0\<close> that transfers \<open>1.0\<close> to an account with
  balance \<open>0.0\<close> gets True; the sender is left with \<open>9007199254740992.0\<close>, two less, and
  the recipient with \<open>1.0\<close>, one more.
\<close>

theorem transfer_rounds:
  "\<forall>str_float.
     fge (Fin 9007199254740994) (Fin 1) \<and>
     snd (transfer_money str_float (two_accounts (Fin 9007199254740994) (Fin 0)) 0 ''100002''
            (Fin 1)) \<and>
     heap (fst (transfer_money str_float (two_accounts (Fin 9007199254740994) (Fin 0)) 0
                  ''100002'' (Fin 1))) =
       heap (two_accounts (Fin 9007199254740992) (Fin 1))"
  by (simp add: transfer_money_def obj_withdraw_def withdraw_def obj_deposit_def deposit_def
      save_accounts_def two_accounts_def Account_def fsub_def round64_large)

text \<open>
  C6, amended. A transfer from an account whose balance is at least the amount to another
  account of the dictionary returns True; the sender's balance becomes
  \<open>balance - amount\<close> and the recipient's \<open>balance + amount\<close> in float arithmetic, the
  floats nearest to the difference and to the sum, and no other account object changes.
  Where the difference and the sum are floats the sender loses and the recipient gains
  the amount itself: with 50.0 and 0.0 and an amount of 30.0 the balances are 20.0 and
  30.0 afterwards.
\<close>

theorem transfer_moves_amount:
  assumes "heap s from_account = Some a"
    and "map_of (accounts s) to_number = Some r"
    and "heap s r = Some b"
    and "r \<noteq> from_account"
    and "fge (balance a) amount"
  shows "snd (transfer_money str_float s from_account to_number amount) \<and>
    heap (fst (transfer_money str_float s from_account to_number amount)) =
      (heap s)(from_account \<mapsto> a\<lparr>balance := fsub (balance a) amount\<rparr>,
               r \<mapsto> b\<lparr>balance := fadd (balance b) amount\<rparr>) \<and>
    accounts (fst (transfer_money str_float s from_account to_number amount)) = accounts s \<and>
    (\<forall>x y z. balance a = Fin x \<and> amount = Fin y \<and> balance b = Fin z \<and>
        round64 (x - y) = Fin (x - y) \<and> round64 (z + y) = Fin (z + y) \<longrightarrow>
      heap (fst (transfer_money str_float s from_account to_number amount)) =
        (heap s)(from_account \<mapsto> a\<lparr>balance := Fin (x - y)\<rparr>,
                 r \<mapsto> b\<lparr>balance := Fin (z + y)\<rparr>))"
  using assms
  by (auto simp add: transfer_money_def obj_withdraw_def withdraw_def obj_deposit_def
      deposit_def save_accounts_def fsub_def)

theorem transfer_moves_amount_witness:
  "\<forall>str_float.
     snd (transfer_money str_float (two_accounts (Fin 50) (Fin 0)) 0 ''100002'' (Fin 30)) \<and>
     heap (fst (transfer_money str_float (two_accounts (Fin 50) (Fin 0)) 0 ''100002'' (Fin 30))) =
       heap (two_accounts (Fin 20) (Fin 30))"
proof
  fix str_float
  have h: "heap (two_accounts (Fin 50) (Fin 0)) 0 = Some (Account ''100001'' ''1234'' ''savings'' (Fin 50))"
    "map_of (accounts (two_accounts (Fin 50) (Fin 0))) ''100002'' = Some 1"
    "heap (two_accounts (Fin 50) (Fin 0)) 1 = Some (Account ''100002'' ''5678'' ''current'' (Fin 0))"
    "(1::nat) \<noteq> 0"
    "fge (balance (Account ''100001'' ''1234'' ''savings'' (Fin 50))) (Fin 30)"
    by (simp_all add: two_accounts_def Account_def)
  show "snd (transfer_money str_float (two_accounts (Fin 50) (Fin 0)) 0 ''100002'' (Fin 30)) \<and>
     heap (fst (transfer_money str_float (two_accounts (Fin 50) (Fin 0)) 0 ''100002'' (Fin 30))) =
       heap (two_accounts (Fin 20) (Fin 30))"
    using transfer_moves_amount [OF h, of str_float]
    by (simp add: two_accounts_def Account_def fsub_def round64_whole)
qed

text \<open>
  C7, as stated, fails: an account whose balance is below the negative amount is refused.
  After \<open>deposit(-10.0)\<close> on a new account the balance is \<open>-10.0\<close>, and
  \<open>withdraw(-5.0)\<close> returns False and leaves it there.
\<close>

theorem withdraw_negative_refused:
  "flt (Fin (- 5)) (Fin 0) \<and>
   withdraw (Account ''100001'' ''1234'' ''savings'' (Fin (- 10))) (Fin (- 5)) =
     (Account ''100001'' ''1234'' ''savings'' (Fin (- 10)), False)"
  by (simp add: withdraw_def Account_def)

text \<open>
  C7, amended. For every strictly negative amount and every account whose balance is at
  least that amount (every account with a balance that is not negative, in particular),
  \<open>withdraw\<close> returns True and the new balance is \<open>balance + abs(amount)\<close>.
\<close>

theorem withdraw_negative_adds:
  "flt amount (Fin 0) \<Longrightarrow> fge (balance a) amount \<Longrightarrow>
   withdraw a amount = (a\<lparr>balance := fadd (balance a) (fabs amount)\<rparr>, True)"
  by (simp add: withdraw_def fsub_def fneg_negative)

theorem withdraw_negative_adds_witness:
  "flt (Fin (- 5)) (Fin 0) \<and> fge (Fin 100) (Fin (- 5)) \<and>
   withdraw (Account ''100001'' ''1234'' ''savings'' (Fin 100)) (Fin (- 5)) =
     (Account ''100001'' ''1234'' ''savings'' (Fin 105), True)"
  using withdraw_negative_adds [of "Fin (- 5)" "Account ''100001'' ''1234'' ''savings'' (Fin 100)"]
  by (simp add: Account_def round64_whole)

text \<open>
  C8. When \<open>accounts.txt\<close> does not exist, constructing the application raises nothing
  and leaves the dictionary of accounts empty.
\<close>

theorem first_run_has_no_accounts:
  "BankingApp float_of None = Inr (no_accounts None) \<and> accounts (no_accounts None) = []"
  by (simp add: BankingApp_def load_accounts_def no_accounts_def)

text \<open>
  C9, as stated, fails: the balance goes through a subtraction and an addition, and each
  rounds. An account with balance 0.9 that transfers 0.2 to its own number gets True and
  a balance of 0.8999999999999999.
\<close>

theorem self_transfer_changes_balance:
  "\<forall>str_float.
     fge (round64 (9 / 10)) (round64 (1 / 5)) \<and>
     snd (transfer_money str_float (two_accounts (round64 (9 / 10)) (Fin 0)) 0 ''100001''
            (round64 (1 / 5))) \<and>
     map_option balance
       (heap (fst (transfer_money str_float (two_accounts (round64 (9 / 10)) (Fin 0)) 0
                     ''100001'' (round64 (1 / 5)))) 0) =
       Some (Fin (2026619832316723 / 2251799813685248)) \<and>
     Fin (2026619832316723 / 2251799813685248) \<noteq> round64 (9 / 10)"
  by (simp add: float_09 float_02 transfer_money_def obj_withdraw_def withdraw_def
      obj_deposit_def deposit_def save_accounts_def two_accounts_def Account_def
      float_09_minus_02_plus_02)

text \<open>
  C9, amended. When the recipient number denotes the sender's own account object and the
  balance is at least the amount, the transfer returns True, the dictionary and every
  other account object stay as they were, and the sender's balance becomes
  \<open>(balance - amount) + amount\<close> in float arithmetic. That is the old balance whenever
  the subtraction is exact.
\<close>

theorem self_transfer:
  assumes "heap s from_account = Some a"
    and "map_of (accounts s) to_number = Some from_account"
    and "fge (balance a) amount"
  shows "snd (transfer_money str_float s from_account to_number amount) \<and>
    accounts (fst (transfer_money str_float s from_account to_number amount)) = accounts s \<and>
    heap (fst (transfer_money str_float s from_account to_number amount)) =
      (heap s)(from_account \<mapsto> a\<lparr>balance := fadd (fsub (balance a) amount) amount\<rparr>) \<and>
    (\<forall>x y. balance a = Fin x \<and> amount = Fin y \<and> round64 x = Fin x \<and>
        round64 (x - y) = Fin (x - y) \<longrightarrow>
      heap (fst (transfer_money str_float s from_account to_number amount)) = heap s)"
  using assms
  by (auto simp add: transfer_money_def obj_withdraw_def withdraw_def obj_deposit_def
      deposit_def save_accounts_def fsub_def map_upd_triv)

theorem self_transfer_witness:
  "\<forall>str_float.
     snd (transfer_money str_float (two_accounts (Fin 50) (Fin 0)) 0 ''100001'' (Fin 30)) \<and>
     heap (fst (transfer_money str_float (two_accounts (Fin 50) (Fin 0)) 0 ''100001'' (Fin 30))) =
       heap (two_accounts (Fin 50) (Fin 0))"
proof
  fix str_float
  have h: "heap (two_accounts (Fin 50) (Fin 0)) 0 = Some (Account ''100001'' ''1234'' ''savings'' (Fin 50))"
    "map_of (accounts (two_accounts (Fin 50) (Fin 0))) ''100001'' = Some 0"
    "fge (balance (Account ''100001'' ''1234'' ''savings'' (Fin 50))) (Fin 30)"
    by (simp_all add: two_accounts_def Account_def)
  show "snd (transfer_money str_float (two_accounts (Fin 50) (Fin 0)) 0 ''100001'' (Fin 30)) \<and>
     heap (fst (transfer_money str_float (two_accounts (Fin 50) (Fin 0)) 0 ''100001'' (Fin 30))) =
       heap (two_accounts (Fin 50) (Fin 0))"
    using self_transfer [OF h, of str_float]
    by (auto simp add: Account_def round64_whole)
qed

text \<open>
  C10. \<open>create_account\<close> does not look the drawn number up. When the number is already
  a key of the dictionary, the key afterwards denotes the new object, an account of the
  requested kind with the digest of the new secret and balance 0.0; the dictionary keeps
  its keys, in their order, and every other key keeps its account.
\<close>

theorem create_account_replaces:
  assumes "map_of (accounts s) (str_int n) = Some old"
  shows "map_of (accounts (create_account str_float s kind n p)) (str_int n) = Some (next_ref s) \<and>
    heap (create_account str_float s kind n p) (next_ref s) =
      Some (Account (str_int n) (str_int p) kind (Fin 0)) \<and>
    map fst (accounts (create_account str_float s kind n p)) = map fst (accounts s) \<and>
    (\<forall>k. k \<noteq> str_int n \<longrightarrow>
       map_of (accounts (create_account str_float s kind n p)) k = map_of (accounts s) k)"
proof -
  from assms have "str_int n \<in> fst ` set (accounts s)"
    by (rule map_of_SomeD [THEN imageI [where f = fst], simplified])
  then show ?thesis
    by (simp add: create_account_def save_accounts_def store_new_def update_conv' update_keys)
qed

theorem create_account_replaces_witness:
  "\<forall>str_float.
     map_of (accounts (two_accounts (Fin 50) (Fin 0))) ''100001'' = Some 0 \<and>
     map_option balance (heap (two_accounts (Fin 50) (Fin 0)) 0) = Some (Fin 50) \<and>
     map_of (accounts (create_account str_float (two_accounts (Fin 50) (Fin 0)) ''current''
        100001 4321)) ''100001'' = Some 2 \<and>
     heap (create_account str_float (two_accounts (Fin 50) (Fin 0)) ''current'' 100001 4321) 2 =
       Some (Account ''100001'' (str_int 4321) ''current'' (Fin 0)) \<and>
     map fst (accounts (create_account str_float (two_accounts (Fin 50) (Fin 0)) ''current''
        100001 4321)) = [''100001'', ''100002'']"
proof
  fix str_float
  have h: "map_of (accounts (two_accounts (Fin 50) (Fin 0))) (str_int 100001) = Some 0"
    by (simp add: two_accounts_def str_int_100001)
  show "map_of (accounts (two_accounts (Fin 50) (Fin 0))) ''100001'' = Some 0 \<and>
     map_option balance (heap (two_accounts (Fin 50) (Fin 0)) 0) = Some (Fin 50) \<and>
     map_of (accounts (create_account str_float (two_accounts (Fin 50) (Fin 0)) ''current''
        100001 4321)) ''100001'' = Some 2 \<and>
     heap (create_account str_float (two_accounts (Fin 50) (Fin 0)) ''current'' 100001 4321) 2 =
       Some (Account ''100001'' (str_int 4321) ''current'' (Fin 0)) \<and>
     map fst (accounts (create_account str_float (two_accounts (Fin 50) (Fin 0)) ''current''
        100001 4321)) = [''100001'', ''100002'']"
    using create_account_replaces [OF h, of str_float "''current''" 4321]
    by (simp add: two_accounts_def str_int_100001 Account_def)
qed

section \<open>Further properties\<close>

lemma split_on_no_separator: "d \<notin> set xs \<Longrightarrow> split_on d xs = [xs]"
  by (induction xs) auto

lemma split_on_first_field:
  "d \<notin> set xs \<Longrightarrow> split_on d (xs @ d # ys) = xs # split_on d ys"
  by (induction xs) auto

lemma strip_keeps:
  assumes "xs \<noteq> []" and "\<not> is_space (hd xs)" and "\<not> is_space (last xs)"
  shows "strip (xs @ [CHR 0x0A]) = xs"
proof -
  from assms obtain c cs where xs: "xs = c # cs" and c: "\<not> is_space c"
    by (cases xs) auto
  from assms obtain d ds where r: "rev xs = d # ds" and d: "\<not> is_space d"
    by (cases "rev xs") (auto simp add: last_rev [symmetric] hd_rev)
  have "is_space (CHR 0x0A)"
    by (simp add: is_space_def)
  then have "dropWhile is_space (rev (xs @ [CHR 0x0A])) = rev xs"
    using r d by simp
  moreover have "dropWhile is_space (xs @ [CHR 0x0A]) = xs @ [CHR 0x0A]"
    using xs c by simp
  ultimately show ?thesis
    by (simp add: strip_def)
qed

text \<open>
  What the loop of \<open>load_accounts\<close> makes of the line that \<open>to_string\<close> wrote for an
  account, when no field holds a comma, the account number does not start and the
  printed balance does not end with white space, and \<open>float\<close> reads the printed balance
  back: the same account number, kind and balance, and as password the digest of the
  stored digest.
\<close>

theorem saved_account_read_back:
  assumes "CHR '','' \<notin> set (account_number a)" and "CHR '','' \<notin> set (password a)"
    and "CHR '','' \<notin> set (account_type a)" and "CHR '','' \<notin> set (str_float (balance a))"
    and "account_number a \<noteq> []" and "\<not> is_space (hd (account_number a))"
    and "str_float (balance a) \<noteq> []" and "\<not> is_space (last (str_float (balance a)))"
    and "float_of (str_float (balance a)) = Some (balance a)"
  shows "load_line float_of (to_string str_float a) =
    Inr (a\<lparr>password := hash_password (password a)\<rparr>)"
proof -
  let ?body = "account_number a @ CHR '','' # password a @ CHR '','' # account_type a @
    CHR '','' # str_float (balance a)"
  have "to_string str_float a = ?body @ [CHR 0x0A]"
    by (simp add: to_string_def)
  moreover have "strip (?body @ [CHR 0x0A]) = ?body"
    using assms(5-8) by (intro strip_keeps) (simp_all add: hd_append)
  moreover have "split_on CHR '','' ?body =
    [account_number a, password a, account_type a, str_float (balance a)]"
    using assms(1-4) by (simp add: split_on_first_field split_on_no_separator)
  ultimately show ?thesis
    using assms(9) by (simp add: load_line_def Account_def)
qed

theorem saved_account_read_back_witness:
  "load_line (\<lambda>t. if t = ''0.0'' then Some (Fin 0) else None)
     (to_string (\<lambda>x. ''0.0'')
        \<lparr>account_number = ''123456'', password = ''03ac6742'', account_type = ''savings'',
         balance = Fin 0\<rparr>) =
   Inr \<lparr>account_number = ''123456'', password = hash_password ''03ac6742'',
        account_type = ''savings'', balance = Fin 0\<rparr>"
  using saved_account_read_back [of "\<lparr>account_number = ''123456'', password = ''03ac6742'',
      account_type = ''savings'', balance = Fin 0\<rparr>" "\<lambda>x. ''0.0''"
      "\<lambda>t. if t = ''0.0'' then Some (Fin 0) else None"]
  by (simp add: is_space_def)

text \<open>
  Right after \<open>create_account\<close>, \<open>login\<close> with the new account number returns the new
  account exactly for the secrets whose digest is the digest of the secret drawn.
\<close>

theorem login_after_create:
  "login (create_account str_float s kind n p) (str_int n) secret =
     (if hash_password (str_int p) = hash_password secret then Some (next_ref s) else None)"
  by (simp add: login_def create_account_def save_accounts_def store_new_def update_conv'
      Account_def)

text \<open>
  After \<open>delete_account\<close> of an account number, \<open>login\<close> with that number returns
  None, whatever the secret.
\<close>

theorem login_after_delete:
  "login (fst (delete_account str_float s number)) number secret = None"
  by (simp add: login_def delete_account_def save_accounts_def delete_conv'
      split: option.splits)

end
